theory Spec2Isabelle
  imports Complex_Main "HOL-Library.Multiset"
begin

section \<open>Numeric values and arrays\<close>

text \<open>
  The engine computes on numpy arrays of 64-bit floats. A float is modelled as a real
  number, one of the two infinities, or the undefined value NaN. Rounding, overflow and the
  sign of zero are not modelled: a finite float is the real number it stands for. Every
  operation follows IEEE 754 on that abstraction (\<open>0/0\<close> and \<open>inf - inf\<close> are NaN, a
  nonzero value divided by zero is an infinity, every comparison with NaN is false).
\<close>

datatype npfloat = Fin real | Infty bool | NaN

fun isnan :: "npfloat \<Rightarrow> bool" where
  "isnan NaN = True"
| "isnan _ = False"

fun fmul :: "npfloat \<Rightarrow> npfloat \<Rightarrow> npfloat" where
  "fmul NaN _ = NaN"
| "fmul _ NaN = NaN"
| "fmul (Fin a) (Fin b) = Fin (a * b)"
| "fmul (Fin a) (Infty s) = (if a = 0 then NaN else Infty (s = (0 < a)))"
| "fmul (Infty s) (Fin b) = (if b = 0 then NaN else Infty (s = (0 < b)))"
| "fmul (Infty s) (Infty t) = Infty (s = t)"

fun fdiv :: "npfloat \<Rightarrow> npfloat \<Rightarrow> npfloat" where
  "fdiv NaN _ = NaN"
| "fdiv _ NaN = NaN"
| "fdiv (Fin a) (Fin b) =
     (if b = 0 then (if a = 0 then NaN else Infty (0 < a)) else Fin (a / b))"
| "fdiv (Fin a) (Infty s) = Fin 0"
| "fdiv (Infty s) (Fin b) = Infty (s = (0 \<le> b))"
| "fdiv (Infty s) (Infty t) = NaN"

fun fadd :: "npfloat \<Rightarrow> npfloat \<Rightarrow> npfloat" where
  "fadd NaN _ = NaN"
| "fadd _ NaN = NaN"
| "fadd (Fin a) (Fin b) = Fin (a + b)"
| "fadd (Fin a) (Infty s) = Infty s"
| "fadd (Infty s) (Fin b) = Infty s"
| "fadd (Infty s) (Infty t) = (if s = t then Infty s else NaN)"



fun flt :: "npfloat \<Rightarrow> npfloat \<Rightarrow> bool" where
  "flt NaN _ = False"
| "flt _ NaN = False"
| "flt (Fin a) (Fin b) = (a < b)"
| "flt (Fin a) (Infty s) = s"
| "flt (Infty s) (Fin b) = (\<not> s)"
| "flt (Infty s) (Infty t) = (\<not> s \<and> t)"


definition fgt :: "npfloat \<Rightarrow> npfloat \<Rightarrow> bool" where
  "fgt a b = flt b a"


text \<open>\<open>a == b\<close> on floats: NaN is equal to nothing, itself included.\<close>

definition feq :: "npfloat \<Rightarrow> npfloat \<Rightarrow> bool" where
  "feq a b = (\<not> isnan a \<and> a = b)"

text \<open>
  \<open>np.nansum\<close> of a sequence: NaN entries count as zero, so the sum of no entries,
  or of NaN entries only, is 0.
\<close>

definition nansum_list :: "npfloat list \<Rightarrow> npfloat" where
  "nansum_list xs = foldl fadd (Fin 0) (filter (\<lambda>v. \<not> isnan v) xs)"

text \<open>
  Arrays carry their shape and an indexing function; only the cells inside the shape are
  part of the array. The tensor of a Quantity is three-dimensional (cases, x-categories
  plus total, y-categories plus total); aggregation results are two-dimensional.
\<close>

record array3 =
  dim0 :: nat
  dim1 :: nat
  dim2 :: nat
  cell3 :: "nat \<Rightarrow> nat \<Rightarrow> nat \<Rightarrow> npfloat"

record array2 =
  rows :: nat
  cols :: nat
  cell2 :: "nat \<Rightarrow> nat \<Rightarrow> npfloat"

text \<open>\<open>a.swapaxes(1, 2)\<close> and \<open>a.swapaxes(2, 1)\<close> are the same view.\<close>

definition swapaxes12 :: "array3 \<Rightarrow> array3" where
  "swapaxes12 a = \<lparr>dim0 = dim0 a, dim1 = dim2 a, dim2 = dim1 a,
                   cell3 = (\<lambda>c i j. cell3 a c j i)\<rparr>"










section \<open>The Quantity object\<close>

datatype error = ValueError | TypeError | IndexError | NotImplementedError
  | AttributeError | UnboundLocalError

datatype qtype = simple | nested | array

datatype axis = X | Y

datatype label = Code int | Name string | NoLabel

text \<open>
  The attributes of a Quantity that the aggregation methods read and write. The variable
  names \<open>x\<close>, \<open>y\<close> and the weight name \<open>w\<close> are the fields \<open>q_x\<close>, \<open>q_y\<close>, \<open>q_w\<close>;
  \<open>type\<close> is \<open>q_type\<close>, where \<open>None\<close> is the value \<open>_get_type\<close> returns for a mask
  that is not an array. \<open>wv\<close> holds one weight per case of the tensor (it is the last
  column of the two-dimensional matrix the tensor is built from, so it has the tensor's
  case count). An attribute that may be Python's \<open>None\<close> is an option.
\<close>

record quantity =
  q_x :: string
  q_y :: string
  q_w :: string
  q_type :: "qtype option"
  uses_meta :: bool
  is_empty :: bool
  is_weighted :: bool
  switched :: bool
  matrix :: array3
  wv :: "nat \<Rightarrow> npfloat"
  xdef :: "int list option"
  ydef :: "int list option"
  x_indexers :: "nat list"
  y_indexers :: "nat list"
  comb_x :: "label list option"
  comb_y :: "label list option"
  miss_x :: "int list option"
  miss_y :: "int list option"
  factorized :: "axis option"
  current_agg :: string
  result :: "array2 option"
  cbase :: "array2 option"
  rbase :: "array2 option"
  has_x_margin :: bool
  has_y_margin :: bool

subsection \<open>weight and unweight\<close>

text \<open>
  \<open>np.atleast_3d(self.wv)\<close> has shape (cases, 1, 1): case \<open>c\<close> of the tensor is
  multiplied by \<open>wv[c]\<close>. \<open>weight\<close> multiplies the whole tensor the first time and only
  the block \<open>[:, 1:, 1:]\<close> once \<open>is_weighted\<close> is set.
\<close>

definition weight :: "quantity \<Rightarrow> quantity" where
  "weight q =
     (if is_weighted q
      then q\<lparr>matrix := (matrix q)\<lparr>cell3 := (\<lambda>c i j.
                 if 1 \<le> i \<and> 1 \<le> j then fmul (cell3 (matrix q) c i j) (wv q c)
                 else cell3 (matrix q) c i j)\<rparr>,
             is_weighted := True\<rparr>
      else q\<lparr>matrix := (matrix q)\<lparr>cell3 := (\<lambda>c i j. fmul (cell3 (matrix q) c i j) (wv q c))\<rparr>,
             is_weighted := True\<rparr>)"

text \<open>
  \<open>unweight\<close> divides the block \<open>[:, 1:, 1:]\<close> by itself and leaves \<open>is_weighted\<close> set.
\<close>

definition unweight :: "quantity \<Rightarrow> quantity" where
  "unweight q =
     q\<lparr>matrix := (matrix q)\<lparr>cell3 := (\<lambda>c i j.
            if 1 \<le> i \<and> 1 \<le> j then fdiv (cell3 (matrix q) c i j) (cell3 (matrix q) c i j)
            else cell3 (matrix q) c i j)\<rparr>,
       is_weighted := True\<rparr>"

subsection \<open>The axis switch\<close>

definition switch_axes :: "quantity \<Rightarrow> quantity" where
  "switch_axes q =
     q\<lparr>switched := \<not> switched q,
       matrix := swapaxes12 (matrix q),
       xdef := ydef q, ydef := xdef q,
       x_indexers := y_indexers q, y_indexers := x_indexers q,
       comb_x := comb_y q, comb_y := comb_x q,
       miss_x := miss_y q, miss_y := miss_x q\<rparr>"

subsection \<open>exclude and limit\<close>

text \<open>\<open>xs.index(v)\<close> for a value that occurs in the list.\<close>

fun index_of :: "int list \<Rightarrow> int \<Rightarrow> nat" where
  "index_of [] v = 0"
| "index_of (u # us) v = (if u = v then 0 else Suc (index_of us v))"

text \<open>
  \<open>_get_drop_idx\<close>: the positions in \<open>xdef\<close> of the codes to erase. Iterating a missing
  \<open>xdef\<close>, or testing membership in it, raises TypeError.
\<close>

definition get_drop_idx :: "quantity \<Rightarrow> int list option \<Rightarrow> bool \<Rightarrow> error + nat list option" where
  "get_drop_idx q codes keep =
     (case codes of
        None \<Rightarrow> Inr None
      | Some cs \<Rightarrow>
          (case xdef q of
             None \<Rightarrow> (if \<not> keep \<and> cs = [] then Inr (Some []) else Inl TypeError)
           | Some xs \<Rightarrow>
               (if keep then Inr (Some (map (index_of xs) (filter (\<lambda>c. c \<notin> set cs) xs)))
                else Inr (Some (map (index_of xs) (filter (\<lambda>c. c \<in> set xs) cs))))))"

text \<open>
  \<open>np.place(m[:, ix], m[:, ix] > 0, NaN)\<close> for every \<open>ix\<close> of the list, in order: the
  positive cells of x-row \<open>ix\<close> become NaN. An \<open>ix\<close> outside the axis raises IndexError.
\<close>

fun place_nan :: "array3 \<Rightarrow> nat list \<Rightarrow> error + array3" where
  "place_nan m [] = Inr m"
| "place_nan m (ix # ixs) =
     (if dim1 m \<le> ix then Inl IndexError
      else place_nan (m\<lparr>cell3 := (\<lambda>c i j.
             if i = ix \<and> fgt (cell3 m c i j) (Fin 0) then NaN else cell3 m c i j)\<rparr>) ixs)"

datatype returned = RetNone | RetSelf | RetIdx "nat list" | RetCopy quantity
  | RetCopyIdx quantity "nat list"

text \<open>
  \<open>_missingfy\<close>. The two guards on the y-axis come first. In the cleaning branch the rows
  whose sum is not positive are nulled by a boolean-mask assignment
  (\<open>matrix[~mask] = NaN\<close> with a mask that keeps its reduced dimensions); what numpy does
  with such a mask depends on its version, so that one step is the parameter
  \<open>null_rows\<close>, which receives the cleaned instance. \<open>_copy\<close> yields an instance with the
  same attribute values. The result is the instance after the call together with the
  value returned.
\<close>

definition missingfy ::
  "(quantity \<Rightarrow> array3) \<Rightarrow> quantity \<Rightarrow> int list option \<Rightarrow> axis \<Rightarrow> bool \<Rightarrow> bool \<Rightarrow> bool \<Rightarrow> bool
     \<Rightarrow> error + (quantity \<times> returned)" where
  "missingfy null_rows q codes ax keep_codes keep_base indices inplace =
     (if ax = Y \<and> q_y q = ''@'' \<and> q_type q \<noteq> Some array then Inr (q, RetSelf)
      else if ax = Y \<and> q_type q = Some array then Inl NotImplementedError
      else
        let m1 = (if ax = Y then switch_axes q else q) in
        (case get_drop_idx m1 codes keep_codes of
           Inl e \<Rightarrow> Inl e
         | Inr None \<Rightarrow> Inl TypeError
         | Inr (Some drop_idx) \<Rightarrow>
             let mis_ix = map Suc drop_idx in
             (case place_nan (matrix m1) mis_ix of
                Inl e \<Rightarrow> Inl e
              | Inr pm \<Rightarrow>
                  let m2 = m1\<lparr>matrix := pm\<rparr>;
                      m3 = (if keep_base then m2
                            else let m2' = (if inplace
                                            then (if ax = X then m2\<lparr>miss_x := codes\<rparr>
                                                  else m2\<lparr>miss_y := codes\<rparr>)
                                            else m2)
                                 in m2'\<lparr>matrix := null_rows m2'\<rparr>);
                      self1 = (if keep_base \<or> inplace then q
                               else (if ax = X then q\<lparr>miss_x := codes\<rparr>
                                     else q\<lparr>miss_y := codes\<rparr>));
                      m4 = (if ax = Y then switch_axes m3 else m3)
                  in if inplace
                     then Inr (m4, if indices then RetIdx mis_ix else RetNone)
                     else Inr (self1, if indices then RetCopyIdx m4 mis_ix else RetCopy m4))))"

definition exclude :: "(quantity \<Rightarrow> array3) \<Rightarrow> quantity \<Rightarrow> int list option \<Rightarrow> axis \<Rightarrow> error + quantity" where
  "exclude null_rows q codes ax =
     (case missingfy null_rows q codes ax False False False True of
        Inl e \<Rightarrow> Inl e
      | Inr (q', r) \<Rightarrow> Inr q')"

definition limit :: "(quantity \<Rightarrow> array3) \<Rightarrow> quantity \<Rightarrow> int list option \<Rightarrow> axis \<Rightarrow> error + quantity" where
  "limit null_rows q codes ax =
     (case missingfy null_rows q codes ax True True False True of
        Inl e \<Rightarrow> Inl e
      | Inr (q', r) \<Rightarrow> Inr q')"

subsection \<open>group: the group definition\<close>

text \<open>
  The objects that the elements of a group definition can be: a number (a code, or a
  truth value, which Python hashes and compares as 0 or 1), a string, another hashable
  object (a function, say; it is given by a text, equal objects having equal texts), or
  an object that cannot be hashed (a list, a dict).
\<close>

datatype pyobj = IntObj int | StrObj string | Hashable string | Unhashable string

text \<open>
  A net is a list of codes, a logical expression (a tuple, given by its elements) or a
  wildcard (a dict, given by its keys, which are strings). A group of a block is a dict
  with the group's name as key and the net as value, and possibly the key \<open>'expand'\<close>:
  \<open>grp_expand\<close> is \<open>None\<close> without that key and \<open>Some v\<close> with it, \<open>v\<close> being \<open>None\<close> or a
  string. The source reads such a dict through \<open>grp.values()[0]\<close>, and CPython 2 lists
  the entries of a dict by the hash values of the keys (by insertion where keys
  collide), so the order is part of the input: \<open>expand_first\<close> says that the dict lists
  the entry of \<open>'expand'\<close> before the entry of the name. It means nothing without that
  key. In the dict that the method builds itself, with the keys \<open>'net'\<close> and \<open>'expand'\<close>,
  \<open>'net'\<close> comes first.
\<close>

datatype net = CodeList "int list" | Logical "pyobj list" | Wildcard "string list"

record grp =
  grp_name :: string
  grp_net :: net
  grp_expand :: "string option option"
  expand_first :: bool

datatype groups = Single net | Block "grp list"

datatype dict_value = NetValue net | ExpandValue "string option"

definition first_value :: "grp \<Rightarrow> dict_value" where
  "first_value g =
     (case grp_expand g of
        None \<Rightarrow> NetValue (grp_net g)
      | Some e \<Rightarrow> if expand_first g then ExpandValue e else NetValue (grp_net g))"

datatype grp_type = block_type | list_type | logical_type | wildcard_type | no_type

text \<open>
  \<open>_grp_type\<close> looks at the first element of a list, which raises IndexError on an
  empty one. For a value that is no list, tuple or dict (the value of \<open>'expand'\<close> is
  \<open>None\<close> or a string) it falls off its end and returns \<open>None\<close>: \<open>no_type\<close>.
\<close>

definition grp_type_of_net :: "net \<Rightarrow> error + grp_type" where
  "grp_type_of_net n =
     (case n of
        CodeList cs \<Rightarrow> if cs = [] then Inl IndexError else Inr list_type
      | Logical l \<Rightarrow> Inr logical_type
      | Wildcard l \<Rightarrow> Inr wildcard_type)"

definition grp_type_of_value :: "dict_value \<Rightarrow> error + grp_type" where
  "grp_type_of_value v =
     (case v of NetValue n \<Rightarrow> grp_type_of_net n | ExpandValue e \<Rightarrow> Inr no_type)"

definition grp_type_of :: "groups \<Rightarrow> error + grp_type" where
  "grp_type_of g =
     (case g of
        Single n \<Rightarrow> grp_type_of_net n
      | Block gs \<Rightarrow> if gs = [] then Inl IndexError else Inr block_type)"

text \<open>What iterating over a net yields: its codes, the elements of the tuple, the keys.\<close>

fun objs_of :: "net \<Rightarrow> pyobj list" where
  "objs_of (CodeList cs) = map IntObj cs"
| "objs_of (Logical os) = os"
| "objs_of (Wildcard ks) = map StrObj ks"

fun unhashable :: "pyobj \<Rightarrow> bool" where
  "unhashable (Unhashable t) = True"
| "unhashable _ = False"

text \<open>An organized group: names, net, expand, logical.\<close>

record organized =
  o_names :: "label list"
  o_net :: net
  o_expand :: "string option"
  o_logical :: bool

definition expand_true :: "string option \<Rightarrow> bool" where
  "expand_true e = (case e of None \<Rightarrow> False | Some s \<Rightarrow> s \<noteq> [])"

text \<open>
  The state of the loop of \<open>_organize_grp_def\<close>: the organized groups, the codes used,
  \<open>any_extensions\<close> and \<open>any_logical\<close>. The type that decides the branch is that of the
  first value of the dict as it comes in. Once \<open>'expand'\<close> is deleted the dict has one
  entry, so the \<open>grp.keys()\<close> and \<open>grp.values()[0]\<close> that are stored, and the latter
  added to \<open>codes_used\<close>, are the name and the net.
\<close>

fun organize_loop ::
  "string option \<Rightarrow> bool \<Rightarrow> grp list \<Rightarrow> organized list \<times> pyobj list \<times> bool \<times> bool
     \<Rightarrow> error + (organized list \<times> pyobj list \<times> bool \<times> bool)" where
  "organize_loop method_expand completing [] st = Inr st"
| "organize_loop method_expand completing (g # gs) (organized_def, codes_used, any_ext, any_log) =
     (case grp_type_of_value (first_value g) of
        Inl e \<Rightarrow> Inl e
      | Inr ty \<Rightarrow>
          if ty \<in> {logical_type, wildcard_type} then
            (if completing then Inl NotImplementedError
             else organize_loop method_expand completing gs
                    (organized_def @ [\<lparr>o_names = [Name (grp_name g)], o_net = grp_net g,
                                       o_expand = None, o_logical = True\<rparr>],
                     codes_used @ objs_of (grp_net g), any_ext, True))
          else
            (let expand = (case grp_expand g of
                             Some e \<Rightarrow> if e = None \<and> completing then Some ''before'' else e
                           | None \<Rightarrow> method_expand)
             in organize_loop method_expand completing gs
                  (organized_def @ [\<lparr>o_names = [Name (grp_name g)], o_net = grp_net g,
                                     o_expand = expand, o_logical = False\<rparr>],
                   codes_used @ objs_of (grp_net g),
                   any_ext \<or> expand_true expand, any_log)))"

text \<open>
  \<open>_add_unused_codes\<close>. An entry of the frame is a one-code list, an organized group or
  the marker \<open>'-'\<close>. Of the elements of a net only a number can be equal to a code of
  the frame; the others leave the frame as it is.
\<close>

fun codes_in :: "pyobj list \<Rightarrow> int list" where
  "codes_in [] = []"
| "codes_in (IntObj c # os) = c # codes_in os"
| "codes_in (_ # os) = codes_in os"

datatype frame_item = One int | Grp organized | Dash

fun replace_first :: "frame_item \<Rightarrow> frame_item \<Rightarrow> frame_item list \<Rightarrow> frame_item list" where
  "replace_first old new [] = []"
| "replace_first old new (f # fs) =
     (if f = old then new # fs else f # replace_first old new fs)"

fun place_codes :: "organized \<Rightarrow> int list \<Rightarrow> frame_item list \<Rightarrow> frame_item list" where
  "place_codes grpdef [] frame = frame"
| "place_codes grpdef (code # codes) frame =
     place_codes grpdef codes
       (if One code \<in> set frame
        then (if Grp grpdef \<notin> set frame then replace_first (One code) (Grp grpdef) frame
              else replace_first (One code) Dash frame)
        else frame)"

fun place_groups :: "organized list \<Rightarrow> frame_item list \<Rightarrow> frame_item list" where
  "place_groups [] frame = frame"
| "place_groups (grpdef # gs) frame =
     place_groups gs
       (place_codes grpdef (codes_in (objs_of (o_net grpdef))) frame)"

definition lookup_entry :: "int \<Rightarrow> organized" where
  "lookup_entry c = \<lparr>o_names = [Code c], o_net = CodeList [c], o_expand = None,
                     o_logical = False\<rparr>"

text \<open>
  The last loop runs over the positions of the frame and replaces, for a one-code list
  at the position, the first such list of the frame by its lookup entry.
\<close>

fun fill_unused :: "nat \<Rightarrow> nat \<Rightarrow> frame_item list \<Rightarrow> frame_item list" where
  "fill_unused 0 i frame = frame"
| "fill_unused (Suc n) i frame =
     fill_unused n (Suc i)
       (case frame ! i of
          One c \<Rightarrow> replace_first (One c) (Grp (lookup_entry c)) frame
        | _ \<Rightarrow> frame)"

definition add_unused_codes :: "quantity \<Rightarrow> organized list \<Rightarrow> axis \<Rightarrow> error + frame_item list" where
  "add_unused_codes q grp_def_list ax =
     (case (if ax = X then xdef q else ydef q) of
        None \<Rightarrow> Inl TypeError
      | Some query_codes \<Rightarrow>
          let frame = place_groups grp_def_list (map One query_codes);
              frame' = filter (\<lambda>f. f \<noteq> Dash) frame
          in Inr (fill_unused (length frame') 0 frame'))"

text \<open>
  \<open>_organize_grp_def\<close>. When no group was taken as logical, \<open>set(codes_used)\<close> is built,
  which raises TypeError on an element that cannot be hashed.
\<close>

definition organize_grp_def ::
  "quantity \<Rightarrow> groups \<Rightarrow> string option \<Rightarrow> bool \<Rightarrow> axis \<Rightarrow> error + frame_item list" where
  "organize_grp_def q grp_def method_expand completing ax =
     (let method_expand' = (if method_expand = None \<and> completing then Some ''before''
                            else method_expand)
      in case grp_type_of grp_def of
           Inl e \<Rightarrow> Inl e
         | Inr ty \<Rightarrow>
             let grp_def' = (case grp_def of
                               Block gs \<Rightarrow> gs
                             | Single n \<Rightarrow> [\<lparr>grp_name = ''net'', grp_net = n,
                                              grp_expand = Some method_expand',
                                              expand_first = False\<rparr>])
             in (case organize_loop method_expand' completing grp_def' ([], [], completing, False) of
                   Inl e \<Rightarrow> Inl e
                 | Inr (organized_def, codes_used, any_extensions, any_logical) \<Rightarrow>
                     if \<not> any_logical \<and> list_ex unhashable codes_used
                     then Inl TypeError
                     else if \<not> any_logical \<and> card (set codes_used) \<noteq> length codes_used
                        \<and> any_extensions
                     then Inl NotImplementedError
                     else if completing then add_unused_codes q organized_def ax
                     else Inr (map Grp organized_def)))"

text \<open>
  \<open>group\<close>: the two guards, the group definition, and then the net vectors and the new
  matrix, which are the parameter \<open>combine\<close>. The matrix is assigned at the very end of
  \<open>combine\<close> only, so a call that raises before leaves it as it was.
\<close>

definition group_axis ::
  "(quantity \<Rightarrow> frame_item list \<Rightarrow> axis \<Rightarrow> error + quantity) \<Rightarrow> quantity \<Rightarrow> groups \<Rightarrow> axis
     \<Rightarrow> string option \<Rightarrow> bool \<Rightarrow> error + quantity" where
  "group_axis combine q groups ax expand completing =
     (if ax = Y \<and> q_type q = Some array then Inl NotImplementedError
      else if ax = Y \<and> q_y q = ''@'' then Inl ValueError
      else case organize_grp_def q groups expand completing ax of
             Inl e \<Rightarrow> Inl e
           | Inr grp_def \<Rightarrow> combine q grp_def ax)"

text \<open>
  For stating properties of a group definition: whether a net is a logical expression,
  the codes it lists, the nets of a definition, whether the definition has a logical
  net that is the first value of its dict, and whether some group keeps its originating
  codes or the axis is completed.
\<close>

fun is_logical :: "net \<Rightarrow> bool" where
  "is_logical (CodeList cs) = False"
| "is_logical _ = True"

fun codes_of :: "net \<Rightarrow> int list" where
  "codes_of (CodeList cs) = cs"
| "codes_of _ = []"

definition nets_of :: "groups \<Rightarrow> net list" where
  "nets_of g = (case g of Single n \<Rightarrow> [n] | Block gs \<Rightarrow> map grp_net gs)"

definition logical_first :: "groups \<Rightarrow> bool" where
  "logical_first g =
     (case g of
        Single n \<Rightarrow> is_logical n
      | Block gs \<Rightarrow> list_ex (\<lambda>g. is_logical (grp_net g) \<and> first_value g = NetValue (grp_net g)) gs)"

definition extension_active :: "groups \<Rightarrow> string option \<Rightarrow> bool \<Rightarrow> bool" where
  "extension_active g method_expand completing =
     (completing \<or>
      (case g of
         Single n \<Rightarrow> expand_true method_expand
       | Block gs \<Rightarrow> list_ex (\<lambda>g. expand_true (case grp_expand g of Some e \<Rightarrow> e
                                                   | None \<Rightarrow> method_expand)) gs))"

text \<open>
  Two block definitions. The first has the groups A and B, which share the code 2, and
  a logical group C. The second is the dict \<open>{'f': <logical>, 'expand': 'before'}\<close>,
  which lists \<open>'expand'\<close> first. The logical expressions are tuples of a function, a list
  of codes and a flag.
\<close>

definition overlap_block :: groups where
  "overlap_block =
     Block [\<lparr>grp_name = ''A'', grp_net = CodeList [1, 2], grp_expand = None, expand_first = False\<rparr>,
            \<lparr>grp_name = ''B'', grp_net = CodeList [2, 3], grp_expand = None, expand_first = False\<rparr>,
            \<lparr>grp_name = ''C'',
             grp_net = Logical [Hashable ''_has_any'', Unhashable ''[4]'', IntObj 0],
             grp_expand = None, expand_first = False\<rparr>]"

definition hidden_block :: groups where
  "hidden_block =
     Block [\<lparr>grp_name = ''f'',
             grp_net = Logical [Hashable ''_has_any'', Unhashable ''[1, 2]'', IntObj 0],
             grp_expand = Some (Some ''before''), expand_first = True\<rparr>]"

subsection \<open>count\<close>












subsection \<open>summarize: the percentiles\<close>

text \<open>
  \<open>np.argsort\<close> orders floats with NaN last and returns the positions of the values in
  that order. With its default kind the order in which it leaves equal values is not
  determined, so \<open>argsort\<close> is a parameter of the routines below; \<open>sorts_column\<close> says what
  is known of its result on a column: it is a permutation of the positions, and the
  values read in its order ascend. \<open>insertion_argsort\<close>, the insertion sort from the
  left, is one such function.
\<close>

definition np_less :: "npfloat \<Rightarrow> npfloat \<Rightarrow> bool" where
  "np_less a b = (flt a b \<or> (isnan b \<and> \<not> isnan a))"




















text \<open>
  The percentile in the words of the specification, for the valid cases of a column as
  pairs of value and weight, sorted ascending by value. With the cumulative weight sums
  and \<open>k = (sum of the weights + 1) * percentile\<close>: no case gives 0 and a single case
  its value; a \<open>k\<close> before the first cumulative sum gives the minimum and one from the
  last sum on the maximum; otherwise, for the largest position \<open>m\<close> whose cumulative sum
  is at most \<open>k\<close>, the result lies between the values at \<open>m\<close> and \<open>m + 1\<close>, at the fraction
  given by the excess of \<open>k\<close> over that sum: the excess itself when the next weight is at
  least 1 (capped at 1), the excess divided by the next weight when that is smaller.
\<close>

definition running_sums :: "real list \<Rightarrow> real list" where
  "running_sums ws = map (\<lambda>i. sum_list (take (Suc i) ws)) [0..<length ws]"



subsection \<open>Example instance\<close>

text \<open>
  Two cases, x and y with the codes 1 and 2: case 0 answered (1, 1), case 1 answered
  (2, 2); every case has the weight 2.
\<close>

definition example_tensor :: array3 where
  "example_tensor = \<lparr>dim0 = 2, dim1 = 3, dim2 = 3,
     cell3 = (\<lambda>c i j. if (i = 0 \<or> i = Suc c) \<and> (j = 0 \<or> j = Suc c) then Fin 1 else Fin 0)\<rparr>"

definition example_quantity :: quantity where
  "example_quantity =
     \<lparr>q_x = ''q1'', q_y = ''gender'', q_w = ''weight'', q_type = Some simple,
      uses_meta = True, is_empty = False, is_weighted = False, switched = False,
      matrix = example_tensor, wv = (\<lambda>c. Fin 2),
      xdef = Some [1, 2], ydef = Some [1, 2], x_indexers = [1, 2], y_indexers = [1, 2],
      comb_x = None, comb_y = None, miss_x = None, miss_y = None, factorized = None,
      current_agg = '''', result = None, cbase = None, rbase = None,
      has_x_margin = False, has_y_margin = False\<rparr>"

section \<open>The Test object\<close>

text \<open>
  A significance level is a name or a number. A float literal of the source is the
  decimal number it denotes.
\<close>

datatype level = LevelName string | LevelNum real

text \<open>
  \<open>_convert_level\<close> binds \<open>comparevalue\<close> and \<open>siglevel\<close> only for the two known
  mimics and, for a name, only for the three known names; the \<open>return\<close> raises
  UnboundLocalError otherwise.
\<close>

definition convert_level :: "string \<Rightarrow> level \<Rightarrow> error + (npfloat \<times> npfloat)" where
  "convert_level mimic lvl =
     (case lvl of
        LevelName s \<Rightarrow>
          (if s = ''low'' then
             (if mimic = ''Dim'' then Inr (Fin 0.10, Fin 0.10)
              else if mimic = ''askia'' then Inr (Fin 1.65, Fin 0.10)
              else Inl UnboundLocalError)
           else if s = ''mid'' then
             (if mimic = ''Dim'' then Inr (Fin 0.05, Fin 0.05)
              else if mimic = ''askia'' then Inr (Fin 1.96, Fin 0.05)
              else Inl UnboundLocalError)
           else if s = ''high'' then
             (if mimic = ''Dim'' then Inr (Fin 0.01, Fin 0.01)
              else if mimic = ''askia'' then Inr (Fin 2.576, Fin 0.01)
              else Inl UnboundLocalError)
           else Inl UnboundLocalError)
      | LevelNum r \<Rightarrow>
          (if mimic = ''Dim'' then Inr (Fin r, Fin r)
           else if mimic = ''askia'' then Inr (Fin 1.65, Fin 0.10)
           else Inl UnboundLocalError))"

text \<open>
  The attributes of a Test that \<open>set_params\<close> and \<open>run\<close> use when the aggregation is
  degenerate. \<open>multiindex\<close> holds the row and column labels of the tested view;
  \<open>t_ydef\<close> is the second level of its column labels. The flags start as \<open>None\<close>.
\<close>

datatype metric = means | proportions

record test =
  t_metric :: metric
  t_values :: array2
  t_ydef :: "label list"
  multiindex :: "label list \<times> label list"
  invalid :: "bool option"
  no_pairs :: "bool option"
  no_diffs :: "bool option"
  t_mimic :: "string option"
  t_level :: "npfloat option"
  comparevalue :: "npfloat option"

text \<open>\<open>np.nansum\<close> of a whole two-dimensional array.\<close>

definition nansum_all :: "array2 \<Rightarrow> npfloat" where
  "nansum_all a =
     nansum_list (concat (map (\<lambda>i. map (\<lambda>j. cell2 a i j) [0..<cols a]) [0..<rows a]))"

text \<open>
  \<open>set_params\<close>. Its first branch marks the test invalid; the second one, which
  derives the measures of a test that can be run, is the parameter \<open>configure\<close>.
\<close>

definition set_params ::
  "(test \<Rightarrow> level \<Rightarrow> string \<Rightarrow> error + test) \<Rightarrow> test \<Rightarrow> level \<Rightarrow> string \<Rightarrow> error + test" where
  "set_params configure t lvl mimic =
     (if feq (nansum_all (t_values t)) (Fin 0) \<or> length (t_ydef t) = 1 then
        let t1 = t\<lparr>invalid := Some True\<rparr>;
            t2 = (if feq (nansum_all (t_values t1)) (Fin 0)
                  then t1\<lparr>no_diffs := Some True\<rparr> else t1);
            t3 = (if length (t_ydef t2) = 1 then t2\<lparr>no_pairs := Some True\<rparr> else t2);
            t4 = t3\<lparr>t_mimic := Some mimic\<rparr>
        in (case convert_level mimic lvl of
              Inl e \<Rightarrow> Inl e
            | Inr (cv, sl) \<Rightarrow> Inr (t4\<lparr>comparevalue := Some cv, t_level := Some sl\<rparr>))
      else configure t lvl mimic)"

text \<open>
  What \<open>_empty_output\<close> hands to \<open>pd.DataFrame\<close>: the values array, or the list
  \<open>[np.NaN]\<close>. The constructor raises ValueError unless the data has the shape of the
  labels; a list of one scalar is one row of one column.
\<close>

datatype frame_data = FromArray array2 | NanList

record dataframe =
  df_values :: array2
  df_index :: "label list"
  df_columns :: "label list"

definition all_nan :: "nat \<Rightarrow> nat \<Rightarrow> array2" where
  "all_nan r c = \<lparr>rows = r, cols = c, cell2 = (\<lambda>i j. NaN)\<rparr>"

definition DataFrame :: "frame_data \<Rightarrow> label list \<Rightarrow> label list \<Rightarrow> error + dataframe" where
  "DataFrame dat idx cls =
     (case dat of
        FromArray a \<Rightarrow>
          (if rows a = length idx \<and> cols a = length cls
           then Inr \<lparr>df_values = a, df_index = idx, df_columns = cls\<rparr>
           else Inl ValueError)
      | NanList \<Rightarrow>
          (if length idx = 1 \<and> length cls = 1
           then Inr \<lparr>df_values = all_nan 1 1, df_index = idx, df_columns = cls\<rparr>
           else Inl ValueError))"

definition truthy :: "bool option \<Rightarrow> bool" where
  "truthy b = (b = Some True)"

text \<open>
  \<open>_empty_output\<close>. \<open>values[:] = np.NaN\<close> overwrites the stored values in place, so the
  test is returned with the table.
\<close>

definition empty_output :: "test \<Rightarrow> error + (test \<times> dataframe)" where
  "empty_output t =
     (let nan_fill = (\<lambda>u. u\<lparr>t_values := all_nan (rows (t_values u)) (cols (t_values u))\<rparr>);
          tp = (if t_metric t = proportions \<and> (truthy (no_pairs t) \<or> truthy (no_diffs t))
                then nan_fill t else t);
          vp = (if t_metric t = proportions \<and>
                   ((rows (t_values tp) = 1 \<and> cols (t_values tp) = 1) \<or>
                    (rows (t_values tp) = 1 \<and> cols (t_values tp) = 0))
                then NanList else FromArray (t_values tp));
          vm = (if t_metric t = means \<and> truthy (no_pairs tp) then NanList else vp);
          tm = (if t_metric t = means \<and> truthy (no_diffs tp) \<and> \<not> truthy (no_pairs tp)
                then nan_fill tp else tp);
          vals = (if t_metric t = means \<and> truthy (no_diffs tp) \<and> \<not> truthy (no_pairs tp)
                  then FromArray (t_values tm) else vm)
      in case DataFrame vals (fst (multiindex tm)) (snd (multiindex tm)) of
           Inl e \<Rightarrow> Inl e
         | Inr df \<Rightarrow> Inr (tm, df))"

text \<open>
  \<open>run\<close>: a test that is not invalid goes through \<open>get_sig\<close> and \<open>_output\<close>, the
  parameter \<open>significance\<close>.
\<close>

definition run :: "(test \<Rightarrow> error + (test \<times> dataframe)) \<Rightarrow> test \<Rightarrow> error + (test \<times> dataframe)" where
  "run significance t = (if \<not> truthy (invalid t) then significance t else empty_output t)"

definition example_test :: test where
  "example_test =
     \<lparr>t_metric = proportions,
      t_values = \<lparr>rows = 2, cols = 1, cell2 = (\<lambda>i j. if i = 0 then Fin 3 else Fin 4)\<rparr>,
      t_ydef = [Code 1], multiindex = ([Code 1, Code 2], [Code 1]),
      invalid = None, no_pairs = None, no_diffs = None,
      t_mimic = None, t_level = None, comparevalue = None\<rparr>"





section \<open>Attribute reset and swap\<close>

text \<open>
  \<open>_reset\<close> walks over the attribute dictionary of the instance, so for \<open>swap\<close> and
  \<open>rebase\<close> an instance is that dictionary: a map from attribute names to values. A
  value is \<open>None\<close>, a truth value, a string, a list of codes, one of the callables that
  the instance is handed at construction (\<open>link.data\<close>, \<open>link.meta\<close>, \<open>link.cache\<close>,
  \<open>link.dataset\<close>), or any other object (arrays, index objects).
\<close>

datatype pyval = PNone | PBool bool | PStr string | PCodes "int list" | PCallable | PObject

type_synonym attrs = "string \<rightharpoonup> pyval"

definition reset :: "attrs \<Rightarrow> attrs" where
  "reset self =
     (if dom self = {} then self
      else (\<lambda>prop. case self prop of
              None \<Rightarrow> None
            | Some v \<Rightarrow>
                Some (if prop \<in> set [''_uses_meta'', ''base_all'', ''_dataidx'', ''meta'',
                                      ''_cache'', ''d'', ''idx_map''] then v
                      else if prop \<in> set [''_squeezed'', ''switched''] then PBool False
                      else PNone))
           (''result'' \<mapsto> PNone))"

definition py_true :: "pyval \<Rightarrow> bool" where
  "py_true v = (case v of PNone \<Rightarrow> False | PBool b \<Rightarrow> b | PStr s \<Rightarrow> s \<noteq> []
                | PCodes cs \<Rightarrow> cs \<noteq> [] | PCallable \<Rightarrow> True | PObject \<Rightarrow> True)"

text \<open>
  \<open>_get_type\<close>; \<open>masks\<close> is the content of \<open>self.meta()['masks']\<close>: the type of each
  mask by name. Reading a missing attribute raises AttributeError, calling a value that
  is not callable raises TypeError, as does \<open>'>' in self.y\<close> for a \<open>y\<close> that is no string.
\<close>

definition mask_type :: "(string \<rightharpoonup> string) \<Rightarrow> pyval \<Rightarrow> string option" where
  "mask_type masks v = (case v of PStr n \<Rightarrow> masks n | _ \<Rightarrow> None)"

definition get_type :: "(string \<rightharpoonup> string) \<Rightarrow> attrs \<Rightarrow> error + pyval" where
  "get_type masks self =
     (case self ''_uses_meta'' of
        None \<Rightarrow> Inl AttributeError
      | Some u \<Rightarrow>
          if py_true u then
            (case self ''x'' of
               None \<Rightarrow> Inl AttributeError
             | Some xv \<Rightarrow>
                 (case self ''meta'' of
                    None \<Rightarrow> Inl AttributeError
                  | Some mv \<Rightarrow>
                      if mv \<noteq> PCallable then Inl TypeError
                      else
                        (case mask_type masks xv of
                           Some ty \<Rightarrow>
                             if ty = ''array'' then Inr (PStr ''array'') else Inr PNone
                         | None \<Rightarrow>
                             (case self ''y'' of
                                None \<Rightarrow> Inl AttributeError
                              | Some (PStr n) \<Rightarrow>
                                  if CHR ''>'' \<in> set n then Inr (PStr ''nested'')
                                  else Inr (PStr ''simple'')
                              | Some _ \<Rightarrow> Inl TypeError))))
          else Inr (PStr ''simple''))"

text \<open>
  \<open>_get_matrix\<close> starts with \<open>self.cache().get_obj(...)\<close>. Everything after that call
  (reading the cache store and the data table, building the tensor) is the parameter
  \<open>build\<close>.
\<close>

definition get_matrix :: "(attrs \<Rightarrow> error + attrs) \<Rightarrow> attrs \<Rightarrow> error + attrs" where
  "get_matrix build self =
     (case self ''cache'' of
        None \<Rightarrow> Inl AttributeError
      | Some c \<Rightarrow> if c = PCallable then build self else Inl TypeError)"

text \<open>
  \<open>swap\<close>. \<open>_copy\<close> reads \<open>self.matrix\<close> and yields an instance with the same
  attribute values. The result is the instance after the call and the value returned
  (\<open>None\<close> when \<open>inplace\<close>, the clone otherwise).
\<close>

definition swap ::
  "(string \<rightharpoonup> string) \<Rightarrow> (attrs \<Rightarrow> error + attrs) \<Rightarrow> attrs \<Rightarrow> string \<Rightarrow> axis \<Rightarrow> bool
     \<Rightarrow> error + (attrs \<times> attrs option)" where
  "swap masks build self var ax inplace =
     (case (if ax = X then self ''y'' else self ''x'') of
        None \<Rightarrow> Inl AttributeError
      | Some other \<Rightarrow>
          (case (self ''f'', self ''w'') of
             (Some f, Some w) \<Rightarrow>
               if \<not> inplace \<and> self ''matrix'' = None then Inl AttributeError
               else
                 let s1 = reset self;
                     s2 = (if ax = X then s1(''x'' \<mapsto> PStr var, ''y'' \<mapsto> other)
                           else s1(''x'' \<mapsto> other, ''y'' \<mapsto> PStr var));
                     s3 = s2(''f'' \<mapsto> f, ''w'' \<mapsto> w)
                 in (case get_type masks s3 of
                       Inl e \<Rightarrow> Inl e
                     | Inr ty \<Rightarrow>
                         (case get_matrix build (s3(''type'' \<mapsto> ty)) of
                            Inl e \<Rightarrow> Inl e
                          | Inr s4 \<Rightarrow> if inplace then Inr (s4, None) else Inr (self, Some s4)))
           | _ \<Rightarrow> Inl AttributeError))"

subsection \<open>rebase\<close>

text \<open>
  The three axis tests of \<open>rebase\<close>. \<open>_sects_different_order\<close> tests a generator
  object for truth, which is true whatever it would yield. \<open>_sect_is_subset\<close> compares a
  set with the integer 0, which raises TypeError.
\<close>

definition sects_identical :: "pyval \<Rightarrow> pyval \<Rightarrow> bool" where
  "sects_identical axdef1 axdef2 = (axdef1 = axdef2)"

definition py_len :: "pyval \<Rightarrow> error + nat" where
  "py_len v = (case v of PCodes cs \<Rightarrow> Inr (length cs) | PStr s \<Rightarrow> Inr (length s)
               | _ \<Rightarrow> Inl TypeError)"

definition sects_different_order :: "pyval \<Rightarrow> pyval \<Rightarrow> error + bool" where
  "sects_different_order axdef1 axdef2 =
     (case py_len axdef1 of
        Inl e \<Rightarrow> Inl e
      | Inr n1 \<Rightarrow>
          (case py_len axdef2 of
             Inl e \<Rightarrow> Inl e
           | Inr n2 \<Rightarrow> if \<not> n1 = n2 then Inr False else Inr True))"

definition sect_is_subset :: "pyval \<Rightarrow> pyval \<Rightarrow> error + bool" where
  "sect_is_subset axdef1 axdef2 = Inl TypeError"

datatype axis_relation = Identical | DifferentOrder | Subset

text \<open>The \<open>if\<close>/\<open>elif\<close> chain of \<open>rebase\<close> on the two axis definitions.\<close>

definition rebase_axis :: "pyval \<Rightarrow> pyval \<Rightarrow> error + axis_relation" where
  "rebase_axis xd rd =
     (if sects_identical xd rd then Inr Identical
      else case sects_different_order xd rd of
             Inl e \<Rightarrow> Inl e
           | Inr True \<Rightarrow> Inr DifferentOrder
           | Inr False \<Rightarrow>
               (case sect_is_subset xd rd of
                  Inl e \<Rightarrow> Inl e
                | Inr True \<Rightarrow> Inr Subset
                | Inr False \<Rightarrow> Inl IndexError))"

text \<open>
  \<open>rebase\<close>. \<open>attach\<close> stands for \<open>_force_to_nparray\<close> and \<open>_attach_margins\<close>;
  \<open>finish\<close> for what follows the axis tests (reordering the reference, counting it,
  dividing, the margins).
\<close>

definition rebase ::
  "(string \<rightharpoonup> string) \<Rightarrow> (attrs \<Rightarrow> error + attrs) \<Rightarrow> (attrs \<Rightarrow> error + attrs)
     \<Rightarrow> (axis_relation \<Rightarrow> attrs \<Rightarrow> attrs \<Rightarrow> error + attrs)
     \<Rightarrow> attrs \<Rightarrow> string \<Rightarrow> error + attrs" where
  "rebase masks build attach finish self reference =
     (case self ''result'' of
        None \<Rightarrow> Inl AttributeError
      | Some r \<Rightarrow>
          if r = PNone then Inl ValueError
          else
            (case self ''current_agg'' of
               None \<Rightarrow> Inl AttributeError
             | Some a \<Rightarrow>
                 if a \<noteq> PStr ''freq'' then Inl ValueError
                 else
                   (case attach self of
                      Inl e \<Rightarrow> Inl e
                    | Inr s1 \<Rightarrow>
                        (case swap masks build s1 reference X False of
                           Inl e \<Rightarrow> Inl e
                         | Inr (s2, None) \<Rightarrow> Inl AttributeError
                         | Inr (s2, Some ref) \<Rightarrow>
                             (case (s2 ''xdef'', ref ''xdef'') of
                                (Some xd, Some rd) \<Rightarrow>
                                  (case rebase_axis xd rd of
                                     Inl e \<Rightarrow> Inl e
                                   | Inr rel \<Rightarrow> finish rel s2 ref)
                              | _ \<Rightarrow> Inl AttributeError)))))"

text \<open>
  An instance as \<open>__init__\<close> leaves it after a frequency count, for a link of \<open>q1\<close> on
  \<open>gender\<close> with the codes 1, 2, 3 on the x-axis.
\<close>

definition example_instance :: attrs where
  "example_instance =
     [''quantified'' \<mapsto> PBool True, ''is_weighted'' \<mapsto> PBool False, ''_uses_meta'' \<mapsto> PBool True,
      ''d'' \<mapsto> PCallable, ''ds'' \<mapsto> PCallable, ''base_all'' \<mapsto> PBool False,
      ''_dataidx'' \<mapsto> PObject, ''meta'' \<mapsto> PCallable, ''cache'' \<mapsto> PCallable,
      ''f'' \<mapsto> PStr ''no_filter'', ''x'' \<mapsto> PStr ''q1'', ''y'' \<mapsto> PStr ''gender'',
      ''w'' \<mapsto> PStr ''@1'', ''type'' \<mapsto> PStr ''simple'', ''_squeezed'' \<mapsto> PBool True,
      ''idx_map'' \<mapsto> PObject, ''xdef'' \<mapsto> PCodes [1, 2, 3], ''ydef'' \<mapsto> PCodes [1, 2],
      ''matrix'' \<mapsto> PObject, ''is_empty'' \<mapsto> PBool False, ''switched'' \<mapsto> PBool False,
      ''factorized'' \<mapsto> PNone, ''result'' \<mapsto> PObject, ''current_agg'' \<mapsto> PStr ''freq'',
      ''cbase'' \<mapsto> PObject, ''rbase'' \<mapsto> PObject, ''wv'' \<mapsto> PObject]"

text \<open>
  What \<open>__init__\<close> establishes about the attributes that \<open>swap\<close> touches.
\<close>

fun is_str :: "pyval \<Rightarrow> bool" where
  "is_str (PStr n) = True"
| "is_str _ = False"

definition constructed :: "attrs \<Rightarrow> bool" where
  "constructed self =
     ((case self ''x'' of Some xv \<Rightarrow> is_str xv | None \<Rightarrow> False)
      \<and> (case self ''y'' of Some yv \<Rightarrow> is_str yv | None \<Rightarrow> False)
      \<and> self ''f'' \<noteq> None \<and> self ''w'' \<noteq> None \<and> self ''matrix'' = Some PObject
      \<and> self ''cache'' = Some PCallable
      \<and> ((self ''_uses_meta'' = Some (PBool True) \<and> self ''meta'' = Some PCallable)
           \<or> (self ''_uses_meta'' = Some (PBool False) \<and> self ''meta'' = Some PNone)))"

section \<open>Properties\<close>

subsection \<open>weight and unweight\<close>

text \<open>
  C1, as the code has it: after \<open>weight()\<close> and \<open>unweight()\<close> a non-total entry (both
  indices at least 1) of a case with a finite nonzero weight is 1 when it was finite and
  nonzero, so an indicator 1 is restored, and is NaN when it was 0. A total entry (x or y
  index 0) stays multiplied by the case weight when the instance had not been weighted
  before, and is left as it was when it had. \<open>is_weighted\<close> is set afterwards.
\<close>

theorem weight_unweight_cells:
  "(1 \<le> i \<and> 1 \<le> j \<and> wv q c = Fin g \<and> g \<noteq> 0 \<and> cell3 (matrix q) c i j = Fin v \<and> v \<noteq> 0
      \<longrightarrow> cell3 (matrix (unweight (weight q))) c i j = Fin 1)
   \<and> (1 \<le> i \<and> 1 \<le> j \<and> wv q c = Fin g \<and> cell3 (matrix q) c i j = Fin 0
      \<longrightarrow> cell3 (matrix (unweight (weight q))) c i j = NaN)
   \<and> ((i = 0 \<or> j = 0) \<and> \<not> is_weighted q
      \<longrightarrow> cell3 (matrix (unweight (weight q))) c i j = fmul (cell3 (matrix q) c i j) (wv q c))
   \<and> ((i = 0 \<or> j = 0) \<and> is_weighted q
      \<longrightarrow> cell3 (matrix (unweight (weight q))) c i j = cell3 (matrix q) c i j)
   \<and> is_weighted (unweight (weight q))"
  by (auto simp: weight_def unweight_def)

theorem weight_unweight_cells_witness:
  "cell3 (matrix (unweight (weight example_quantity))) 0 1 1 = Fin 1
   \<and> cell3 (matrix (unweight (weight example_quantity))) 0 1 2 = NaN
   \<and> cell3 (matrix (unweight (weight example_quantity))) 0 0 0 = Fin 2
   \<and> cell3 (matrix (unweight (weight (weight example_quantity)))) 0 0 0 = Fin 2"
proof -
  have e: "wv example_quantity 0 = Fin 2" "cell3 (matrix example_quantity) 0 1 1 = Fin 1"
    "cell3 (matrix example_quantity) 0 1 2 = Fin 0" "cell3 (matrix example_quantity) 0 0 0 = Fin 1"
    "\<not> is_weighted example_quantity"
    by (simp_all add: example_quantity_def example_tensor_def)
  have w: "is_weighted (weight example_quantity)"
    "cell3 (matrix (weight example_quantity)) 0 0 0 = Fin 2"
    by (simp_all add: weight_def example_quantity_def example_tensor_def)
  show ?thesis
    using weight_unweight_cells [of 1 1 example_quantity 0 2 1]
      weight_unweight_cells [of 1 2 example_quantity 0 2 1]
      weight_unweight_cells [of 0 0 example_quantity 0 2 1]
      weight_unweight_cells [of 0 0 "weight example_quantity" 0 2 1] e w
    by simp
qed

text \<open>
  The claim as stated fails on the example instance, whose cases have the weight 2: the
  total entry of case 0 is 1 before and 2 after, and a zero entry is NaN after.
\<close>

theorem weight_unweight_counterexample:
  "wv example_quantity 0 = Fin 2
   \<and> cell3 (matrix example_quantity) 0 0 0 = Fin 1
   \<and> cell3 (matrix (unweight (weight example_quantity))) 0 0 0 = Fin 2
   \<and> cell3 (matrix example_quantity) 0 1 2 = Fin 0
   \<and> cell3 (matrix (unweight (weight example_quantity))) 0 1 2 = NaN"
  by (simp add: weight_def unweight_def example_quantity_def example_tensor_def)

subsection \<open>The axis switch\<close>

text \<open>
  C4: applying the internal axis switch twice in succession restores \<open>xdef\<close>, \<open>ydef\<close>,
  the x/y indexers, the combine and missing lists and the matrix (and with them the whole
  instance, the \<open>switched\<close> flag included) exactly.
\<close>

theorem switch_axes_twice: "switch_axes (switch_axes q) = q"
  by (simp add: switch_axes_def swapaxes12_def)


subsection \<open>exclude and limit on the y-axis\<close>

text \<open>
  C9: on a Quantity that is not an array and whose y-axis is the total \<open>@\<close>,
  \<open>exclude(codes, axis='y')\<close> and \<open>limit(codes, axis='y')\<close> return the instance
  unchanged without raising; on an array the same calls raise NotImplementedError.
\<close>

theorem exclude_limit_y_guards:
  "(q_y q = ''@'' \<and> q_type q \<noteq> Some array
      \<longrightarrow> exclude nr q codes Y = Inr q \<and> limit nr q codes Y = Inr q)
   \<and> (q_type q = Some array
      \<longrightarrow> exclude nr q codes Y = Inl NotImplementedError
        \<and> limit nr q codes Y = Inl NotImplementedError)"
  by (simp add: exclude_def limit_def missingfy_def)

theorem exclude_limit_y_guards_witness:
  "exclude matrix (example_quantity\<lparr>q_y := ''@''\<rparr>) (Some [1]) Y = Inr (example_quantity\<lparr>q_y := ''@''\<rparr>)
   \<and> limit matrix (example_quantity\<lparr>q_y := ''@''\<rparr>) (Some [1]) Y = Inr (example_quantity\<lparr>q_y := ''@''\<rparr>)
   \<and> exclude matrix (example_quantity\<lparr>q_type := Some array\<rparr>) (Some [1]) Y = Inl NotImplementedError
   \<and> limit matrix (example_quantity\<lparr>q_type := Some array\<rparr>) (Some [1]) Y = Inl NotImplementedError"
proof -
  have e: "q_y (example_quantity\<lparr>q_y := ''@''\<rparr>) = ''@''"
    "q_type (example_quantity\<lparr>q_y := ''@''\<rparr>) \<noteq> Some array"
    "q_type (example_quantity\<lparr>q_type := Some array\<rparr>) = Some array"
    by (simp_all add: example_quantity_def)
  show ?thesis
    using exclude_limit_y_guards [of "example_quantity\<lparr>q_y := ''@''\<rparr>" matrix "Some [1]"]
      exclude_limit_y_guards [of "example_quantity\<lparr>q_type := Some array\<rparr>" matrix "Some [1]"] e
    by simp
qed

subsection \<open>count and its margins\<close>













subsection \<open>swap\<close>

lemma reset_cache: "reset self ''cache'' = None \<or> reset self ''cache'' = Some PNone"
  by (cases "self ''cache''") (auto simp: reset_def)

lemma get_matrix_InrD: "get_matrix build s = Inr s4 \<Longrightarrow> s ''cache'' = Some PCallable"
  by (auto simp: get_matrix_def split: option.splits if_splits)

lemma reset_cache_neq: "reset self ''cache'' \<noteq> Some PCallable"
  using reset_cache [of self] by auto

lemma swap_raises: "\<exists>e. swap masks build self var ax inplace = Inl e"
  unfolding swap_def Let_def
  by (auto split: option.splits sum.splits dest!: get_matrix_InrD simp: reset_cache_neq)

lemma is_strE: "is_str v \<Longrightarrow> \<exists>n. v = PStr n"
  by (cases v) auto

lemma swap_constructed:
  assumes "constructed self"
  shows "swap masks build self var ax inplace = Inl TypeError"
proof -
  from assms obtain xn where x: "self ''x'' = Some (PStr xn)"
    by (auto simp: constructed_def split: option.splits dest: is_strE)
  from assms obtain yn where y: "self ''y'' = Some (PStr yn)"
    by (auto simp: constructed_def split: option.splits dest: is_strE)
  from assms obtain fv wv where fw: "self ''f'' = Some fv" "self ''w'' = Some wv"
    by (auto simp: constructed_def)
  from assms have c: "self ''matrix'' = Some PObject" "self ''cache'' = Some PCallable"
    by (auto simp: constructed_def)
  from assms have m: "(self ''_uses_meta'' = Some (PBool True) \<and> self ''meta'' = Some PCallable)
      \<or> (self ''_uses_meta'' = Some (PBool False) \<and> self ''meta'' = Some PNone)"
    by (auto simp: constructed_def)
  have r: "reset self ''cache'' = Some PNone" "reset self ''_uses_meta'' = self ''_uses_meta''"
    "reset self ''meta'' = self ''meta''"
    using c m by (auto simp: reset_def)
  show ?thesis
    using x y fw c m r
    by (cases ax)
       (auto simp: swap_def Let_def get_type_def get_matrix_def py_true_def mask_type_def
          split: option.splits)
qed

text \<open>
  C6 fails on the code: \<open>swap\<close> never returns. \<open>_reset\<close> keeps \<open>'_cache'\<close>, but the
  attribute is named \<open>cache\<close>, so it is set to \<open>None\<close> and \<open>_get_matrix\<close> fails at
  \<open>self.cache()\<close>; on an instance as \<open>__init__\<close> builds it the error is a TypeError.
\<close>

theorem swap_always_raises:
  "(\<exists>e. swap masks build self var ax inplace = Inl e)
   \<and> (constructed self \<longrightarrow> swap masks build self var ax inplace = Inl TypeError)"
  using swap_raises swap_constructed by blast

lemma example_constructed: "constructed example_instance"
  by (simp add: constructed_def example_instance_def)

theorem swap_always_raises_witness:
  "constructed example_instance
   \<and> swap Map.empty Inr example_instance ''q2'' X False = Inl TypeError"
  using swap_always_raises [of Map.empty Inr example_instance "''q2''" X False] example_constructed
  by simp


subsection \<open>rebase\<close>

lemma rebase_raises: "\<exists>e. rebase masks build attach finish self reference = Inl e"
proof (cases "attach self")
  case (Inl e)
  then show ?thesis by (auto simp: rebase_def split: option.splits)
next
  case (Inr s1)
  from swap_raises [of masks build s1 reference X False] obtain e where
    "swap masks build s1 reference X False = Inl e" by blast
  with Inr show ?thesis by (auto simp: rebase_def split: option.splits)
qed

text \<open>
  C3 fails on the code. Axes of equal length that share no code pass as a reordering;
  a reference of another length, superset or not, ends in the TypeError of
  \<open>_sect_is_subset\<close>; the axis-incompatibility IndexError is never raised; and
  \<open>rebase\<close> as a whole never returns, since \<open>swap\<close> does not.
\<close>

theorem rebase_axis_tests:
  "rebase_axis (PCodes [1, 2, 3]) (PCodes [4, 5, 6]) = Inr DifferentOrder
   \<and> rebase_axis (PCodes [1, 2]) (PCodes [1, 2, 3]) = Inl TypeError
   \<and> rebase_axis (PCodes [1, 2, 3]) (PCodes [7, 8]) = Inl TypeError
   \<and> rebase_axis xd rd \<noteq> Inl IndexError
   \<and> rebase Map.empty Inr Inr finish example_instance ''q2'' = Inl TypeError
   \<and> (\<exists>e. rebase masks build attach finish self reference = Inl e)"
proof -
  have a: "rebase_axis xd rd \<noteq> Inl IndexError"
    by (auto simp: rebase_axis_def sects_different_order_def sect_is_subset_def py_len_def
        split: sum.splits bool.splits pyval.splits)
  have b: "rebase Map.empty Inr Inr finish example_instance ''q2'' = Inl TypeError"
    using swap_constructed [OF example_constructed, of Map.empty Inr "''q2''" X False]
    by (simp add: rebase_def example_instance_def)
  show ?thesis using a b rebase_raises
    by (simp add: rebase_axis_def sects_identical_def sects_different_order_def py_len_def
        sect_is_subset_def)
qed


subsection \<open>Test.run on a degenerate aggregation\<close>

lemma set_params_invalid:
  assumes "set_params configure t lvl mimic = Inr t'"
    and "feq (nansum_all (t_values t)) (Fin 0) \<or> length (t_ydef t) = 1"
  shows "invalid t' = Some True \<and> t_values t' = t_values t \<and> multiindex t' = multiindex t
     \<and> t_metric t' = t_metric t
     \<and> no_diffs t' = (if feq (nansum_all (t_values t)) (Fin 0) then Some True else no_diffs t)
     \<and> no_pairs t' = (if length (t_ydef t) = 1 then Some True else no_pairs t)"
  using assms
  by (auto simp: set_params_def Let_def split: sum.splits)

text \<open>
  When the aggregation has one y-column or sums to zero, \<open>set_params\<close> marks the test
  invalid. If the values are those of the view (they have its shape, \<open>t_ydef\<close> are its
  columns, a means view has one row), \<open>no_pairs\<close> was set by an earlier \<open>set_params\<close> at
  most, and a proportions view of one row has a column, then \<open>run\<close> returns a table with
  the labels and the shape of the tested view whose cells are all NaN.
\<close>

lemma run_invalid:
  assumes "set_params configure t lvl mimic = Inr t'"
    and "feq (nansum_all (t_values t)) (Fin 0) \<or> length (t_ydef t) = 1"
    and "rows (t_values t) = length (fst (multiindex t))"
    and "cols (t_values t) = length (snd (multiindex t))"
    and "length (t_ydef t) = length (snd (multiindex t))"
    and "t_metric t = means \<longrightarrow> rows (t_values t) = 1"
    and "t_metric t = proportions \<and> rows (t_values t) = 1 \<longrightarrow> 0 < cols (t_values t)"
    and "truthy (no_pairs t) \<longrightarrow> length (t_ydef t) = 1"
  shows "\<exists>t'' df. run significance t' = Inr (t'', df)
           \<and> df_index df = fst (multiindex t) \<and> df_columns df = snd (multiindex t)
           \<and> rows (df_values df) = length (fst (multiindex t))
           \<and> cols (df_values df) = length (snd (multiindex t))
           \<and> (\<forall>i j. cell2 (df_values df) i j = NaN)"
proof -
  note s = set_params_invalid [OF assms(1,2)]
  have flags: "truthy (no_pairs t') \<or> truthy (no_diffs t')"
    using s assms(2) by (auto simp: truthy_def)
  have np: "truthy (no_pairs t') \<longrightarrow> length (snd (multiindex t)) = 1"
    using s assms(5,8) by (auto simp: truthy_def split: if_splits)
  show ?thesis
  proof (cases "t_metric t")
    case means
    then show ?thesis
      using s flags np assms(3,4,6)
      by (auto simp: run_def truthy_def empty_output_def Let_def DataFrame_def all_nan_def)
  next
    case proportions
    then show ?thesis
      using s flags assms(3,4,7)
      by (auto simp: run_def truthy_def empty_output_def Let_def DataFrame_def all_nan_def)
  qed
qed





subsection \<open>group: unsupported group definitions\<close>

lemma organize_loop_logical:
  assumes "list_ex (\<lambda>g. is_logical (grp_net g) \<and> first_value g = NetValue (grp_net g)) gs"
    "list_all (\<lambda>g. grp_net g \<noteq> CodeList []) gs"
  shows "organize_loop me True gs st = Inl NotImplementedError"
  using assms
proof (induction gs arbitrary: st)
  case Nil
  then show ?case by simp
next
  case (Cons g gs)
  obtain od cu ae al where st: "st = (od, cu, ae, al)" by (cases st) auto
  show ?case
  proof (cases "first_value g")
    case (ExpandValue e)
    with Cons show ?thesis by (simp add: st grp_type_of_value_def Let_def)
  next
    case (NetValue n)
    then have n: "n = grp_net g"
      by (auto simp: first_value_def split: option.splits if_splits)
    show ?thesis
    proof (cases "grp_net g")
      case (CodeList cs)
      with Cons NetValue n show ?thesis
        by (simp add: st grp_type_of_value_def grp_type_of_net_def Let_def)
    next
      case (Logical l)
      with NetValue n show ?thesis
        by (simp add: st grp_type_of_value_def grp_type_of_net_def)
    next
      case (Wildcard l)
      with NetValue n show ?thesis
        by (simp add: st grp_type_of_value_def grp_type_of_net_def)
    qed
  qed
qed

lemma organize_loop_lists:
  assumes "list_all (\<lambda>g. \<not> is_logical (grp_net g) \<and> grp_net g \<noteq> CodeList []) gs"
  shows "\<exists>od. organize_loop me c gs (od0, cu, ae, al) =
           Inr (od, cu @ map IntObj (concat (map (\<lambda>g. codes_of (grp_net g)) gs)),
                ae \<or> list_ex (\<lambda>g. expand_true (case grp_expand g of
                                     Some e \<Rightarrow> if e = None \<and> c then Some ''before'' else e
                                   | None \<Rightarrow> me)) gs, al)"
  using assms
proof (induction gs arbitrary: od0 cu ae)
  case Nil
  then show ?case by simp
next
  case (Cons g gs)
  then obtain cs where cs: "grp_net g = CodeList cs" "cs \<noteq> []"
    by (cases "grp_net g") auto
  from Cons have rest: "list_all (\<lambda>g. \<not> is_logical (grp_net g) \<and> grp_net g \<noteq> CodeList []) gs"
    by simp
  define e where "e = (case grp_expand g of
                          Some e \<Rightarrow> if e = None \<and> c then Some ''before'' else e
                        | None \<Rightarrow> me)"
  have ty: "grp_type_of_value (first_value g) = Inr list_type
            \<or> grp_type_of_value (first_value g) = Inr no_type"
    using cs
    by (simp add: grp_type_of_value_def grp_type_of_net_def first_value_def
        split: option.splits)
  from Cons.IH [OF rest, of "od0 @ [\<lparr>o_names = [Name (grp_name g)], o_net = grp_net g,
                                     o_expand = e, o_logical = False\<rparr>]"
      "cu @ map IntObj cs" "ae \<or> expand_true e"]
  show ?case
    using cs ty by (auto simp: Let_def e_def)
qed

lemma not_distinct_card: "card (set xs) \<noteq> length xs \<longleftrightarrow> \<not> distinct xs"
  using card_distinct distinct_card by metis

lemma distinct_IntObj: "distinct (map IntObj xs) = distinct xs"
  by (simp add: distinct_map inj_on_def)

lemma hashable_IntObj: "\<not> list_ex unhashable (map IntObj xs)"
  by (simp add: list_ex_iff)

text \<open>
  C8, as the code has it. When the call is not on the y-axis of a total link (that one
  raises ValueError) and no code list is empty, \<open>group\<close> raises NotImplementedError,
  before anything is computed from the matrix, if \<open>complete=True\<close> comes with a logical
  net that is passed alone or is the first value of its group dict, and if some code is
  in more than one group while \<open>expand\<close> or \<open>complete\<close> is active and no group is logical.
\<close>

theorem group_not_implemented:
  assumes "\<not> (ax = Y \<and> q_y q = ''@'' \<and> q_type q \<noteq> Some array)"
    and "nets_of groups \<noteq> []"
    and "list_all (\<lambda>n. n \<noteq> CodeList []) (nets_of groups)"
  shows "(completing \<and> logical_first groups
            \<longrightarrow> group_axis combine q groups ax expand completing = Inl NotImplementedError)
       \<and> (\<not> list_ex is_logical (nets_of groups)
            \<and> \<not> distinct (concat (map codes_of (nets_of groups)))
            \<and> extension_active groups expand completing
            \<longrightarrow> group_axis combine q groups ax expand completing = Inl NotImplementedError)"
proof (cases "ax = Y \<and> q_type q = Some array")
  case True
  then show ?thesis by (simp add: group_axis_def)
next
  case False
  with assms(1) have g: "group_axis combine q groups ax expand completing =
      (case organize_grp_def q groups expand completing ax of
         Inl e \<Rightarrow> Inl e | Inr grp_def \<Rightarrow> combine q grp_def ax)"
    by (auto simp: group_axis_def)
  define me where "me = (if expand = None \<and> completing then Some ''before'' else expand)"
  define gs where "gs = (case groups of Block gs \<Rightarrow> gs
       | Single n \<Rightarrow> [\<lparr>grp_name = ''net'', grp_net = n, grp_expand = Some me,
                        expand_first = False\<rparr>])"
  have nets: "map grp_net gs = nets_of groups"
    by (simp add: gs_def nets_of_def split: groups.splits)
  have "\<exists>ty. grp_type_of groups = Inr ty"
    using assms(2,3)
    by (auto simp: grp_type_of_def grp_type_of_net_def nets_of_def split: groups.splits net.splits)
  then obtain ty where ty: "grp_type_of groups = Inr ty" by blast
  have o: "organize_grp_def q groups expand completing ax =
      (case organize_loop me completing gs ([], [], completing, False) of
         Inl e \<Rightarrow> Inl e
       | Inr (organized_def, codes_used, any_extensions, any_logical) \<Rightarrow>
           if \<not> any_logical \<and> list_ex unhashable codes_used then Inl TypeError
           else if \<not> any_logical \<and> card (set codes_used) \<noteq> length codes_used \<and> any_extensions
           then Inl NotImplementedError
           else if completing then add_unused_codes q organized_def ax
           else Inr (map Grp organized_def))"
    unfolding organize_grp_def_def Let_def me_def gs_def by (simp only: ty sum.case)
  have ne: "list_all (\<lambda>g. grp_net g \<noteq> CodeList []) gs"
    using assms(3) unfolding nets [symmetric] by (simp add: list_all_iff)
  have a: "group_axis combine q groups ax expand completing = Inl NotImplementedError"
    if "completing" "logical_first groups"
  proof -
    have "list_ex (\<lambda>g. is_logical (grp_net g) \<and> first_value g = NetValue (grp_net g)) gs"
      using that(2)
      by (auto simp: logical_first_def gs_def first_value_def split: groups.splits)
    from organize_loop_logical [OF this ne, of me "([], [], completing, False)"] that(1)
    have "organize_loop me completing gs ([], [], completing, False) = Inl NotImplementedError"
      by simp
    then show ?thesis
      by (simp add: g o)
  qed
  have b: "group_axis combine q groups ax expand completing = Inl NotImplementedError"
    if "\<not> list_ex is_logical (nets_of groups)"
      "\<not> distinct (concat (map codes_of (nets_of groups)))"
      "extension_active groups expand completing"
  proof -
    have l: "list_all (\<lambda>g. \<not> is_logical (grp_net g) \<and> grp_net g \<noteq> CodeList []) gs"
      using that(1) ne unfolding nets [symmetric] by (auto simp: list_all_iff list_ex_iff)
    from organize_loop_lists [OF this, of me completing "[]" "[]" completing False]
    obtain od where od: "organize_loop me completing gs ([], [], completing, False) =
       Inr (od, map IntObj (concat (map (\<lambda>g. codes_of (grp_net g)) gs)),
            completing \<or> list_ex (\<lambda>g. expand_true (case grp_expand g of
                                     Some e \<Rightarrow> if e = None \<and> completing then Some ''before'' else e
                                   | None \<Rightarrow> me)) gs, False)"
      by auto
    have cu: "concat (map (\<lambda>g. codes_of (grp_net g)) gs) = concat (map codes_of (nets_of groups))"
      unfolding nets [symmetric] by (simp add: comp_def)
    have ext: "completing \<or> list_ex (\<lambda>g. expand_true (case grp_expand g of
                                     Some e \<Rightarrow> if e = None \<and> completing then Some ''before'' else e
                                   | None \<Rightarrow> me)) gs"
      using that(3)
      by (cases completing)
         (fastforce simp: extension_active_def gs_def me_def list_ex_iff
            split: groups.splits option.splits)+
    define used where "used = map IntObj (concat (map codes_of (nets_of groups)))"
    have dup: "card (set used) \<noteq> length used"
      unfolding used_def not_distinct_card distinct_IntObj by (rule that(2))
    have hash: "\<not> list_ex unhashable used"
      unfolding used_def by (rule hashable_IntObj)
    note od' = od [unfolded cu, folded used_def]
    show ?thesis
      using dup hash ext by (simp add: g o od')
  qed
  from a b show ?thesis by blast
qed

theorem group_not_implemented_witness:
  "group_axis (\<lambda>q g a. Inr q) example_quantity
        (Single (Logical [Hashable ''_has_any'', Unhashable ''[1]'', IntObj 0])) X None True
     = Inl NotImplementedError
   \<and> group_axis (\<lambda>q g a. Inr q) example_quantity
        (Block [\<lparr>grp_name = ''A'', grp_net = CodeList [1, 2], grp_expand = None,
                 expand_first = False\<rparr>,
                \<lparr>grp_name = ''B'', grp_net = CodeList [2, 3], grp_expand = None,
                 expand_first = False\<rparr>])
        X (Some ''before'') False
     = Inl NotImplementedError"
proof -
  let ?l = "Single (Logical [Hashable ''_has_any'', Unhashable ''[1]'', IntObj 0])"
  let ?b = "Block [\<lparr>grp_name = ''A'', grp_net = CodeList [1, 2], grp_expand = None,
                    expand_first = False\<rparr>,
                   \<lparr>grp_name = ''B'', grp_net = CodeList [2, 3], grp_expand = None,
                    expand_first = False\<rparr>]"
  have a: "\<not> (X = Y \<and> q_y example_quantity = ''@'' \<and> q_type example_quantity \<noteq> Some array)"
    "nets_of ?l \<noteq> []"
    "list_all (\<lambda>n. n \<noteq> CodeList []) (nets_of ?l)"
    "logical_first ?l"
    by (simp_all add: nets_of_def logical_first_def)
  have b: "nets_of ?b \<noteq> []" "list_all (\<lambda>n. n \<noteq> CodeList []) (nets_of ?b)"
    "\<not> list_ex is_logical (nets_of ?b)" "\<not> distinct (concat (map codes_of (nets_of ?b)))"
    "extension_active ?b (Some ''before'') False"
    by (simp_all add: nets_of_def extension_active_def expand_true_def)
  show ?thesis
    using group_not_implemented [OF a(1,2,3), of True "\<lambda>q g a. Inr q" None]
      group_not_implemented [OF a(1) b(1,2), of False "\<lambda>q g a. Inr q" "Some ''before''"] a(4) b(3,4,5)
    by simp
qed

text \<open>
  The claim as stated fails when a logical group is among the groups: code 2 is in the
  groups A and B and \<open>expand\<close> is active, yet nothing is raised. It also fails for a
  logical group whose dict lists \<open>'expand'\<close> first: with \<open>complete=True\<close> the group is
  taken as a list of codes, and what is raised is the TypeError of \<open>set(codes_used)\<close>.
\<close>

theorem group_overlap_counterexample:
  "organize_grp_def example_quantity overlap_block (Some ''before'') False X =
     Inr [Grp \<lparr>o_names = [Name ''A''], o_net = CodeList [1, 2], o_expand = Some ''before'',
              o_logical = False\<rparr>,
          Grp \<lparr>o_names = [Name ''B''], o_net = CodeList [2, 3], o_expand = Some ''before'',
              o_logical = False\<rparr>,
          Grp \<lparr>o_names = [Name ''C''],
              o_net = Logical [Hashable ''_has_any'', Unhashable ''[4]'', IntObj 0],
              o_expand = None, o_logical = True\<rparr>]
   \<and> group_axis (\<lambda>q g a. Inr q) example_quantity overlap_block X (Some ''before'') False
       = Inr example_quantity
   \<and> group_axis (\<lambda>q g a. Inr q) example_quantity hidden_block X None True = Inl TypeError"
  by (simp add: group_axis_def organize_grp_def_def overlap_block_def hidden_block_def
      grp_type_of_def grp_type_of_value_def grp_type_of_net_def first_value_def Let_def
      example_quantity_def)

subsection \<open>The percentiles\<close>





lemma np_less_Fin [simp]: "np_less (Fin a) (Fin b) = (a < b)"
  by (simp add: np_less_def)





lemma running_sums_length [simp]: "length (running_sums ws) = length ws"
  by (simp add: running_sums_def)

lemma running_sums_nth: "i < length ws \<Longrightarrow> running_sums ws ! i = sum_list (take (Suc i) ws)"
  by (simp add: running_sums_def)

lemma running_sums_last: "ws \<noteq> [] \<Longrightarrow> last (running_sums ws) = sum_list ws"
proof -
  assume ne: "ws \<noteq> []"
  then have "running_sums ws \<noteq> []" by (simp add: running_sums_def)
  then have "last (running_sums ws) = running_sums ws ! (length ws - 1)"
    by (simp add: last_conv_nth)
  also have "\<dots> = sum_list (take (Suc (length ws - 1)) ws)"
    using ne by (intro running_sums_nth) simp
  also have "\<dots> = sum_list ws" using ne by simp
  finally show ?thesis .
qed

















end
